theory Spec2Isabelle
  imports Main
begin

section \<open>The menu components of solara.lab (menu.py)\<close>

text \<open>
  The three components \<open>ClickMenu\<close>, \<open>ContextMenu\<close> and \<open>Menu\<close> of
  \<^verbatim>\<open>src/solara/lab/components/menu.py\<close> each turn their arguments into one call of
  \<open>MenuWidget\<close>. The model below follows them line by line: the arguments with a
  default are options (\<open>None\<close>: the caller did not pass it), the reactive values live in
  an explicit store, and the result of a component is the record of properties handed to
  \<open>MenuWidget\<close> together with the store after the render.
\<close>

subsection \<open>Arguments\<close>

text \<open>
  \<^verbatim>\<open>activator: Union[solara.Element, List[solara.Element]]\<close>: the value the
  test \<^verbatim>\<open>isinstance(activator, list)\<close> looks at. Elements are opaque handles of
  type \<open>'e\<close>.
\<close>

datatype 'e py_activator = Element 'e | ElementList "'e list"

text \<open>
  \<^verbatim>\<open>open: Union[solara.Reactive[bool], bool]\<close>: a raw boolean, or a reactive
  value owned by the caller, named by its address in the store.
\<close>

type_synonym reactive = nat

datatype open_arg = Raw bool | Reactive reactive

text \<open>\<^verbatim>\<open>style: Optional[Union[str, Dict[str, str]]]\<close>; a dictionary keeps its order.\<close>

datatype style_arg = StyleStr string | StyleDict "(string \<times> string) list"

text \<open>
  The one failure the specification names. No statement of menu.py raises it (or
  anything else): it is here so that the result type of a component can say so.
\<close>

datatype error = ConfigurationError

text \<open>A keyword argument with a default: \<open>None\<close> when the caller leaves it out.\<close>

definition kwarg :: "'a \<Rightarrow> 'a option \<Rightarrow> 'a" where
  "kwarg dflt v = (case v of None \<Rightarrow> dflt | Some x \<Rightarrow> x)"

subsection \<open>Reactive values\<close>

text \<open>
  The store: the boolean held by every reactive value, the next unused address, and the
  hook slot of the one component instance that is rendered (\<open>None\<close> before its first
  render, afterwards the reactive value the instance owns).
\<close>

record ui_state =
  cells :: "reactive \<Rightarrow> bool"
  next_cell :: nat
  hook :: "reactive option"

text \<open>
  Modelled from the spec: the class \<^verbatim>\<open>solara.Reactive\<close> is not among the sources;
  section 4.1 gives a handle with \<^verbatim>\<open>.value\<close> (read) and \<^verbatim>\<open>.set(newValue)\<close>
  (write).
\<close>

definition reactive_value :: "reactive \<Rightarrow> ui_state \<Rightarrow> bool" where
  "reactive_value r st = cells st r"

definition reactive_set :: "reactive \<Rightarrow> bool \<Rightarrow> ui_state \<Rightarrow> ui_state" where
  "reactive_set r x st = st\<lparr>cells := (cells st)(r := x)\<rparr>"

text \<open>
  Modelled from the spec: \<^verbatim>\<open>solara.use_reactive\<close> is not among the sources.
  Section 4.1: given an existing handle, that handle is returned and shared with the
  caller; given a raw boolean, the binding is owned by the component, lives as long as
  the component and is initialised to that value (section 3: the state persists across
  renders). So the first render allocates a reactive value holding the raw boolean and
  keeps it in the hook slot, and a later render finds it there.
\<close>

definition use_reactive :: "open_arg \<Rightarrow> ui_state \<Rightarrow> reactive \<times> ui_state" where
  "use_reactive v st =
     (case v of
        Reactive r \<Rightarrow> (r, st)
      | Raw b \<Rightarrow>
          (case hook st of
             Some r \<Rightarrow> (r, st)
           | None \<Rightarrow>
               (next_cell st,
                st\<lparr>cells := (cells st)(next_cell st := b),
                   next_cell := Suc (next_cell st),
                   hook := Some (next_cell st)\<rparr>)))"

text \<open>The store before anything is rendered: no reactive value allocated, the hook slot empty.\<close>

definition init_state :: ui_state where
  "init_state = \<lparr>cells = (\<lambda>_. False), next_cell = 0, hook = None\<rparr>"

subsection \<open>Activator normalisation\<close>

text \<open>
  Lines 57-58, 106-107 and 181-182, the same statement in each component:
  \<^verbatim>\<open>if not isinstance(activator, list): activator = [activator]\<close>
\<close>

definition normalize_activator :: "'e py_activator \<Rightarrow> 'e list" where
  "normalize_activator a = (case a of ElementList xs \<Rightarrow> xs | Element e \<Rightarrow> [e])"

subsection \<open>The widget\<close>

text \<open>
  The properties \<open>MenuWidget\<close> is called with (lines 8-17), under the parameters'
  names; \<open>use_context\<close> is the parameter \<^verbatim>\<open>context\<close>. The callback
  \<^verbatim>\<open>on_show_menu\<close> is a function of the new value that acts on the store.
\<close>

record 'e menu_props =
  activator :: "'e list"
  show_menu :: bool
  on_show_menu :: "(bool \<Rightarrow> ui_state \<Rightarrow> ui_state) option"
  children :: "'e list"
  style :: "string option"
  use_context :: bool
  use_absolute :: bool
  close_on_content_click :: bool

text \<open>
  \<open>MenuWidget\<close> with its defaults: \<^verbatim>\<open>on_show_menu=None\<close>, \<^verbatim>\<open>children=[]\<close>,
  \<^verbatim>\<open>style=None\<close>, \<^verbatim>\<open>context=False\<close>, \<^verbatim>\<open>use_absolute=True\<close>,
  \<^verbatim>\<open>close_on_content_click=True\<close>. Its body is \<^verbatim>\<open>pass\<close>: the Vue template does
  the rest from these properties.
\<close>

definition MenuWidget ::
  "'e list \<Rightarrow> bool \<Rightarrow> (bool \<Rightarrow> ui_state \<Rightarrow> ui_state) option \<Rightarrow> 'e list option \<Rightarrow>
   string option \<Rightarrow> bool option \<Rightarrow> bool option \<Rightarrow> bool option \<Rightarrow> 'e menu_props" where
  "MenuWidget act shw cb ch sty ctx ab coc =
     \<lparr>activator = act,
      show_menu = shw,
      on_show_menu = cb,
      children = kwarg [] ch,
      style = sty,
      use_context = kwarg False ctx,
      use_absolute = kwarg True ab,
      close_on_content_click = kwarg True coc\<rparr>"

subsection \<open>The components\<close>

text \<open>
  \<^verbatim>\<open>solara.util._flatten_style\<close> is not among the sources: each component takes it
  as its first argument \<open>flat\<close>. The remaining arguments are the component's own, in the
  order of its signature, then the store.

  \<open>ClickMenu\<close>, lines 54-66.
\<close>

definition ClickMenu ::
  "(style_arg option \<Rightarrow> string option) \<Rightarrow> 'e py_activator \<Rightarrow> open_arg option \<Rightarrow>
   'e list option \<Rightarrow> style_arg option \<Rightarrow> ui_state \<Rightarrow> error + ('e menu_props \<times> ui_state)" where
  "ClickMenu flat a opn ch sty st =
     (let (r, st') = use_reactive (kwarg (Raw False) opn) st;
          style_flat = flat sty;
          a' = normalize_activator a
      in Inr (MenuWidget a' (reactive_value r st') (Some (reactive_set r))
                (Some (kwarg [] ch)) style_flat None None None, st'))"

text \<open>\<open>ContextMenu\<close>, lines 103-116: as \<open>ClickMenu\<close>, with \<^verbatim>\<open>context=True\<close>.\<close>

definition ContextMenu ::
  "(style_arg option \<Rightarrow> string option) \<Rightarrow> 'e py_activator \<Rightarrow> open_arg option \<Rightarrow>
   'e list option \<Rightarrow> style_arg option \<Rightarrow> ui_state \<Rightarrow> error + ('e menu_props \<times> ui_state)" where
  "ContextMenu flat a opn ch sty st =
     (let (r, st') = use_reactive (kwarg (Raw False) opn) st;
          style_flat = flat sty;
          a' = normalize_activator a
      in Inr (MenuWidget a' (reactive_value r st') (Some (reactive_set r))
                (Some (kwarg [] ch)) style_flat (Some True) None None, st'))"

text \<open>
  \<open>Menu\<close>, lines 145-192 (the implementation the two overloads of lines 119-141
  annotate): \<^verbatim>\<open>use_absolute=False\<close>, and \<^verbatim>\<open>close_on_content_click\<close> passed on.
  The body has no test of \<^verbatim>\<open>close_on_content_click\<close> against the kind of
  \<^verbatim>\<open>open\<close>.
\<close>

definition Menu ::
  "(style_arg option \<Rightarrow> string option) \<Rightarrow> 'e py_activator \<Rightarrow> open_arg option \<Rightarrow>
   bool option \<Rightarrow> 'e list option \<Rightarrow> style_arg option \<Rightarrow> ui_state \<Rightarrow>
   error + ('e menu_props \<times> ui_state)" where
  "Menu flat a opn coc ch sty st =
     (let (r, st') = use_reactive (kwarg (Raw False) opn) st;
          style_flat = flat sty;
          a' = normalize_activator a
      in Inr (MenuWidget a' (reactive_value r st') (Some (reactive_set r))
                (Some (kwarg [] ch)) style_flat None (Some False) (Some (kwarg True coc)), st'))"

text \<open>
  Modelled from the spec: \<^verbatim>\<open>solara.util._flatten_style\<close> is not among the sources,
  and section 2 says only that it turns a style given as a string or as a key-value mapping
  into one string. This instance serves the concrete scenarios below: no style stays no
  style, a string stays as it is, a mapping is written as its \<open>key:value;\<close> entries in
  order. Every general theorem holds for any normaliser \<open>flat\<close>.
\<close>

definition plain_style :: "style_arg option \<Rightarrow> string option" where
  "plain_style s =
     (case s of
        None \<Rightarrow> None
      | Some (StyleStr t) \<Rightarrow> Some t
      | Some (StyleDict kvs) \<Rightarrow> Some (concat (map (\<lambda>(k, v). k @ '':'' @ v @ '';'') kvs)))"

text \<open>
  The three components under one name, for the statements about every variant. The
  anchored variant carries its \<^verbatim>\<open>close_on_content_click\<close> argument.
\<close>

datatype menu_variant = Click | Context | Anchored "bool option"

definition render_variant ::
  "(style_arg option \<Rightarrow> string option) \<Rightarrow> menu_variant \<Rightarrow> 'e py_activator \<Rightarrow>
   open_arg option \<Rightarrow> 'e list option \<Rightarrow> style_arg option \<Rightarrow> ui_state \<Rightarrow>
   error + ('e menu_props \<times> ui_state)" where
  "render_variant flat v a opn ch sty st =
     (case v of
        Click \<Rightarrow> ClickMenu flat a opn ch sty st
      | Context \<Rightarrow> ContextMenu flat a opn ch sty st
      | Anchored coc \<Rightarrow> Menu flat a opn coc ch sty st)"

section \<open>Helper facts\<close>

lemma use_reactive_raw_fresh:
  "hook st = None \<Longrightarrow>
   use_reactive (Raw b) st =
     (next_cell st,
      st\<lparr>cells := (cells st)(next_cell st := b), next_cell := Suc (next_cell st),
         hook := Some (next_cell st)\<rparr>)"
  by (simp add: use_reactive_def)

lemma reactive_read_after_write: "reactive_value r (reactive_set r x st) = x"
  by (simp add: reactive_value_def reactive_set_def)

lemma use_reactive_hook:
  "use_reactive (Raw b) st = (r, st') \<Longrightarrow> hook st' = Some r"
  by (auto simp: use_reactive_def split: option.splits)

text \<open>After a write through the binding, the next render finds the same binding.\<close>

lemma use_reactive_again:
  "use_reactive v st = (r, st') \<Longrightarrow>
   use_reactive v (reactive_set r x st') = (r, reactive_set r x st')"
  by (auto simp: use_reactive_def reactive_set_def split: option.splits open_arg.splits)

text \<open>What every variant hands to the widget, given the binding \<open>use_reactive\<close> returned.\<close>

lemma render_variant_eq:
  "use_reactive (kwarg (Raw False) opn) st = (r, st') \<Longrightarrow>
   \<exists>cfg. render_variant flat v a opn ch sty st = Inr (cfg, st') \<and>
     activator cfg = normalize_activator a \<and>
     show_menu cfg = reactive_value r st' \<and>
     on_show_menu cfg = Some (reactive_set r) \<and>
     children cfg = kwarg [] ch \<and>
     style cfg = flat sty"
  by (cases v)
     (simp_all add: render_variant_def ClickMenu_def ContextMenu_def Menu_def
        MenuWidget_def kwarg_def)

section \<open>Activator normalisation\<close>

text \<open>
  C9: normalisation is idempotent. Its result is a list; normalising that list again
  gives the same list.
\<close>

theorem normalize_activator_idempotent:
  "normalize_activator (ElementList (normalize_activator a)) = normalize_activator a"
  by (simp add: normalize_activator_def)

text \<open>
  C2, with the bound on the length kept to inputs that hold an element: a single handle
  \<open>e\<close> becomes \<open>[e]\<close>, a sequence \<open>S\<close> is returned as
  it is, in its order; the result has at least one element for a single handle and for
  a sequence that is not empty.
\<close>

theorem normalize_activator_result:
  "normalize_activator (Element e) = [e] \<and>
   normalize_activator (ElementList S) = S \<and>
   1 \<le> length (normalize_activator (Element e)) \<and>
   (S \<noteq> [] \<longrightarrow> 1 \<le> length (normalize_activator (ElementList S)))"
  by (cases S) (simp_all add: normalize_activator_def)

theorem normalize_activator_result_witness:
  "normalize_activator (Element (0::nat)) = [0] \<and>
   normalize_activator (ElementList [0::nat, 1]) = [0, 1] \<and>
   1 \<le> length (normalize_activator (Element (0::nat))) \<and>
   [0::nat, 1] \<noteq> [] \<and>
   1 \<le> length (normalize_activator (ElementList [0::nat, 1]))"
  using normalize_activator_result [of "0::nat" "[0::nat, 1]"] by simp

text \<open>
  C2, the empty list: it is a list and so passes through unchanged, and the result has
  no element.
\<close>

theorem normalize_activator_empty_counterexample:
  "normalize_activator (ElementList ([]::nat list)) = [] \<and>
   \<not> 1 \<le> length (normalize_activator (ElementList ([]::nat list)))"
  by (simp add: normalize_activator_def)

section \<open>The emitted properties\<close>

text \<open>
  C3: \<open>ClickMenu\<close> with the single activator \<open>A\<close> and no \<^verbatim>\<open>open\<close> argument, on
  its first render, calls the widget with activator \<open>[A]\<close>, the menu closed, no context
  trigger, absolute positioning, and closing on a content click.
\<close>

theorem ClickMenu_single_default:
  "hook st = None \<Longrightarrow>
   \<exists>cfg st'. ClickMenu flat (Element A) None ch sty st = Inr (cfg, st') \<and>
     activator cfg = [A] \<and> show_menu cfg = False \<and> use_context cfg = False \<and>
     use_absolute cfg = True \<and> close_on_content_click cfg = True"
  by (simp add: ClickMenu_def use_reactive_raw_fresh kwarg_def MenuWidget_def
      normalize_activator_def reactive_value_def)

theorem ClickMenu_single_default_witness:
  "hook init_state = None \<and>
   (\<exists>cfg st'. ClickMenu plain_style (Element (0::nat)) None None None init_state
        = Inr (cfg, st') \<and>
      activator cfg = [0] \<and> show_menu cfg = False \<and> use_context cfg = False \<and>
      use_absolute cfg = True \<and> close_on_content_click cfg = True)"
proof -
  have h: "hook init_state = None"
    by (simp add: init_state_def)
  from ClickMenu_single_default [OF h, of plain_style "0::nat" None None] h
  show ?thesis by simp
qed

text \<open>
  C4: \<open>ContextMenu\<close> with the activators \<open>[A, B]\<close> and \<^verbatim>\<open>open=True\<close>, on its first
  render, calls the widget with activator \<open>[A, B]\<close>, the menu shown, and the context
  trigger on.
\<close>

theorem ContextMenu_pair_open:
  "hook st = None \<Longrightarrow>
   \<exists>cfg st'. ContextMenu flat (ElementList [A, B]) (Some (Raw True)) ch sty st
        = Inr (cfg, st') \<and>
     activator cfg = [A, B] \<and> show_menu cfg = True \<and> use_context cfg = True"
  by (simp add: ContextMenu_def use_reactive_raw_fresh kwarg_def MenuWidget_def
      normalize_activator_def reactive_value_def)

theorem ContextMenu_pair_open_witness:
  "hook init_state = None \<and>
   (\<exists>cfg st'. ContextMenu plain_style (ElementList [0::nat, 1]) (Some (Raw True)) None None
        init_state = Inr (cfg, st') \<and>
      activator cfg = [0, 1] \<and> show_menu cfg = True \<and> use_context cfg = True)"
proof -
  have h: "hook init_state = None"
    by (simp add: init_state_def)
  from ContextMenu_pair_open [OF h, of plain_style "0::nat" "1::nat" None None] h
  show ?thesis by simp
qed

text \<open>
  C5: \<open>Menu\<close> always calls the widget with \<^verbatim>\<open>use_absolute=False\<close> and with the
  caller's \<^verbatim>\<open>close_on_content_click\<close>, \<open>True\<close> when the caller gives none; so
  with that default and the raw \<^verbatim>\<open>open=False\<close> it returns properties with
  \<^verbatim>\<open>use_absolute=False\<close>.
\<close>

theorem Menu_anchored_props:
  "(\<exists>cfg st'. Menu flat a opn coc ch sty st = Inr (cfg, st') \<and>
      use_absolute cfg = False \<and> close_on_content_click cfg = kwarg True coc) \<and>
   (\<exists>cfg st'. Menu flat a (Some (Raw False)) None ch sty st = Inr (cfg, st') \<and>
      use_absolute cfg = False \<and> close_on_content_click cfg = True)"
  by (simp add: Menu_def MenuWidget_def kwarg_def split: prod.split)

text \<open>
  C10: on the same arguments and store, \<open>ContextMenu\<close> hands the widget the properties
  of \<open>ClickMenu\<close> with \<^verbatim>\<open>context\<close> set, and leaves the same store; \<open>ClickMenu\<close>
  has \<^verbatim>\<open>context\<close> off, and both have absolute positioning and closing on a content
  click, whatever the caller passes.
\<close>

theorem ContextMenu_is_ClickMenu_with_context:
  "\<exists>cfg st'. ClickMenu flat a opn ch sty st = Inr (cfg, st') \<and>
     ContextMenu flat a opn ch sty st = Inr (cfg\<lparr>use_context := True\<rparr>, st') \<and>
     use_context cfg = False \<and> use_absolute cfg = True \<and>
     close_on_content_click cfg = True"
  by (simp add: ClickMenu_def ContextMenu_def MenuWidget_def kwarg_def split: prod.split)

section \<open>The configuration rule of the anchored variant\<close>

text \<open>
  C1, what the code does: \<open>Menu\<close> with \<^verbatim>\<open>close_on_content_click=False\<close> returns the widget's
  properties, with \<^verbatim>\<open>close_on_content_click=False\<close>, for a raw boolean \<^verbatim>\<open>open\<close>
  as for a reactive one, and raises no ConfigurationError: only the overloads of lines
  119-141 exclude the raw boolean, for a type checker.
\<close>

theorem Menu_keeps_open_without_check:
  "(\<exists>cfg st'. Menu flat a (Some (Raw b)) (Some False) ch sty st = Inr (cfg, st') \<and>
      close_on_content_click cfg = False) \<and>
   (\<exists>cfg. Menu flat a (Some (Reactive r)) (Some False) ch sty st = Inr (cfg, st) \<and>
      close_on_content_click cfg = False \<and> show_menu cfg = reactive_value r st) \<and>
   Menu flat a (Some (Raw b)) (Some False) ch sty st \<noteq> Inl ConfigurationError"
  by (simp add: Menu_def MenuWidget_def kwarg_def use_reactive_def
      split: prod.split option.split)

text \<open>
  C1, a concrete call: with \<^verbatim>\<open>close_on_content_click=False\<close> and the raw
  \<^verbatim>\<open>open=False\<close>, on the first render, \<open>Menu\<close> returns properties and no error.
\<close>

theorem Menu_raw_open_counterexample:
  "Menu plain_style (Element (0::nat)) (Some (Raw False)) (Some False) None None init_state
     \<noteq> Inl ConfigurationError \<and>
   \<not> isl (Menu plain_style (Element (0::nat)) (Some (Raw False)) (Some False) None None
            init_state) \<and>
   close_on_content_click
     (fst (projr (Menu plain_style (Element (0::nat)) (Some (Raw False)) (Some False) None
                    None init_state))) = False"
  by (simp add: Menu_def MenuWidget_def kwarg_def split: prod.split)

section \<open>The open binding\<close>

text \<open>
  C7: given the raw boolean \<open>b\<close> as \<^verbatim>\<open>open\<close>, a variant on its first render
  constructs a binding that it owns, whose value is \<open>b\<close> right after construction, and
  the properties of that render have \<^verbatim>\<open>show_menu\<close> equal to \<open>b\<close>.
\<close>

theorem raw_open_initial_value:
  "hook st = None \<Longrightarrow>
   \<exists>r cfg st'. use_reactive (Raw b) st = (r, st') \<and> reactive_value r st' = b \<and>
     hook st' = Some r \<and>
     render_variant flat v a (Some (Raw b)) ch sty st = Inr (cfg, st') \<and>
     show_menu cfg = b"
proof -
  assume h: "hook st = None"
  obtain r st' where u: "use_reactive (Raw b) st = (r, st')"
    by (cases "use_reactive (Raw b) st")
  with h have v: "reactive_value r st' = b"
    by (auto simp: use_reactive_raw_fresh reactive_value_def)
  from u have u': "use_reactive (kwarg (Raw False) (Some (Raw b))) st = (r, st')"
    by (simp add: kwarg_def)
  from render_variant_eq [OF u', of flat v a ch sty] u v use_reactive_hook [OF u]
  show ?thesis by auto
qed

theorem raw_open_initial_value_witness:
  "hook init_state = None \<and>
   (\<exists>r cfg st'. use_reactive (Raw True) init_state = (r, st') \<and>
      reactive_value r st' = True \<and> hook st' = Some r \<and>
      render_variant plain_style Click (Element (0::nat)) (Some (Raw True)) None None
        init_state = Inr (cfg, st') \<and>
      show_menu cfg = True)"
proof -
  have h: "hook init_state = None"
    by (simp add: init_state_def)
  from raw_open_initial_value
         [OF h, of True plain_style Click "Element (0::nat)" None None] h
  show ?thesis by simp
qed

text \<open>
  C6: every variant hands the widget the setter of its open binding as
  \<^verbatim>\<open>on_show_menu\<close> and the binding's value as \<^verbatim>\<open>show_menu\<close>. Calling the
  callback with \<open>x\<close> makes the binding read \<open>x\<close>; calling it with \<open>True\<close> and then
  with \<open>False\<close> makes it read \<open>False\<close>; and the render after a call with \<open>x\<close>
  has \<^verbatim>\<open>show_menu\<close> equal to \<open>x\<close>.
\<close>

theorem on_show_menu_round_trip:
  "\<exists>r f cfg st'. render_variant flat v a opn ch sty st = Inr (cfg, st') \<and>
     use_reactive (kwarg (Raw False) opn) st = (r, st') \<and>
     on_show_menu cfg = Some f \<and> f = reactive_set r \<and>
     show_menu cfg = reactive_value r st' \<and>
     reactive_value r (f x st') = x \<and>
     reactive_value r (f True st') = True \<and>
     reactive_value r (f False (f True st')) = False \<and>
     (\<exists>cfg2 st2. render_variant flat v a opn ch sty (f x st') = Inr (cfg2, st2) \<and>
        show_menu cfg2 = x)"
proof -
  obtain r st' where u: "use_reactive (kwarg (Raw False) opn) st = (r, st')"
    by (cases "use_reactive (kwarg (Raw False) opn) st")
  from render_variant_eq [OF u, of flat v a ch sty]
  obtain cfg where c: "render_variant flat v a opn ch sty st = Inr (cfg, st')"
    "show_menu cfg = reactive_value r st'" "on_show_menu cfg = Some (reactive_set r)"
    by blast
  have u2: "use_reactive (kwarg (Raw False) opn) (reactive_set r x st')
              = (r, reactive_set r x st')"
    by (rule use_reactive_again [OF u])
  from render_variant_eq [OF u2, of flat v a ch sty]
  obtain cfg2 where c2:
    "render_variant flat v a opn ch sty (reactive_set r x st')
       = Inr (cfg2, reactive_set r x st')"
    "show_menu cfg2 = reactive_value r (reactive_set r x st')"
    by blast
  from c2 have again:
    "\<exists>cfg2 st2. render_variant flat v a opn ch sty (reactive_set r x st') = Inr (cfg2, st2) \<and>
       show_menu cfg2 = x"
    by (simp add: reactive_read_after_write)
  with u c show ?thesis
    by (simp add: reactive_read_after_write)
qed

end
